theory Spec2Isabelle
  imports Main "HOL-Library.Word" "HOL-Library.AList"
begin

unbundle bit_operations_syntax

section \<open>Errors\<close>

text \<open>
  The error values the engine code names (package \<open>pkg/errors\<close> and \<open>unix\<close>), and the
  wrapper that \<open>os.NewSyscallError\<close> builds around an errno.  \<open>unix.EAGAIN\<close> is errno 11.
\<close>

datatype error =
    ErrEngineShutdown
  | ErrEmptyEngine
  | ErrAcceptSocket
  | Errno nat
  | SyscallError string error

definition EAGAIN :: error where
  "EAGAIN = Errno 11"

text \<open>
  \<open>errors.Is(err, target)\<close> of the Go standard library: a nil error matches nothing; otherwise
  the chain of wrapped errors is walked and each link compared with the target.
\<close>

fun is_chain :: "error \<Rightarrow> error \<Rightarrow> bool" where
  "is_chain (SyscallError n e) target = (SyscallError n e = target \<or> is_chain e target)"
| "is_chain err target = (err = target)"

definition errors_Is :: "error option \<Rightarrow> error \<Rightarrow> bool" where
  "errors_Is err target = (case err of None \<Rightarrow> False | Some e \<Rightarrow> is_chain e target)"

text \<open>\<open>os.NewSyscallError(name, err)\<close>: nil stays nil, an error is wrapped.\<close>

definition NewSyscallError :: "string \<Rightarrow> error option \<Rightarrow> error option" where
  "NewSyscallError name err = (case err of None \<Rightarrow> None | Some e \<Rightarrow> Some (SyscallError name e))"

section \<open>Data model\<close>

type_synonym bytes = "8 word list"

text \<open>
  A connection as the engine code reads it: its descriptor, its 16-bit generation id
  (\<open>c.id\<close>, a \<open>uint16\<close>) and the \<open>opened\<close> flag; the outbound buffer stands for the
  buffers behind \<open>c.write\<close>.
\<close>

record conn =
  fd :: int
  id_c :: "16 word"
  opened :: bool
  outboundBuffer :: bytes

record listener =
  ln_fd :: int
  network :: string
  address :: string

record Options =
  ReusePort :: bool
  Ticker :: bool
  LockOSThread :: bool
  TCPKeepAlive :: int

text \<open>
  An event loop: \<open>idx\<close>, its poller (the poller type \<open>'p\<close> belongs to package
  \<open>netpoll\<close> and stays a parameter), the \<open>connections\<close> map keyed by descriptor, and the
  \<open>listeners\<close> map \<open>map[int]*listener\<close> kept as an association list whose order is the
  order in which a \<open>range\<close> over the map yields its entries.  The read buffer, the
  event handler and the pointer back to the engine are left out: the functions below
  read the engine's options through a parameter.
\<close>

record 'p eventloop =
  idx :: int
  poller :: 'p
  connections :: "int \<rightharpoonup> conn"
  listeners :: "(int \<times> listener) list"

text \<open>
  The engine: its listeners, the registered worker loops (field \<open>lb\<close> in engine.go, read as
  \<open>eventLoops\<close> by the handle's methods), the options, the optional main loop, the
  WaitGroup counter and the \<open>inShutdown\<close> flag.  The condition variable, the once-gate,
  the ticker context and the event handler are left out.
\<close>

record 'p engine =
  listeners_eng :: "(int \<times> listener) list"
  eventLoops :: "'p eventloop list"
  opts :: Options
  mainLoop :: "'p eventloop option"
  wg :: nat
  inShutdown :: int

text \<open>The handle \<open>Engine\<close>: a value holding the engine pointer, nil in a zero-valued handle.\<close>

record 'p Engine =
  eng :: "'p engine option"

type_synonym 'p closure = "'p eventloop \<Rightarrow> error option \<times> 'p eventloop"

datatype priority = HighPriority | LowPriority

section \<open>The load balancer's list of loops\<close>

text \<open>
  Modelled from the spec: \<open>iterate\<close> and \<open>register\<close> of the load balancer are not among the
  source files.  \<open>iterate(fn)\<close> calls \<open>fn(idx, loop)\<close> in \<open>idx\<close> order until \<open>fn\<close> returns
  false; here \<open>fn\<close> also returns the loop as it has left it.
\<close>

fun iterate_from :: "int \<Rightarrow> (int \<Rightarrow> 'l \<Rightarrow> 'l \<times> bool) \<Rightarrow> 'l list \<Rightarrow> 'l list" where
  "iterate_from i f [] = []"
| "iterate_from i f (el # els) =
     (case f i el of (el', continue) \<Rightarrow>
        if continue then el' # iterate_from (i + 1) f els else el' # els)"

definition iterate :: "(int \<Rightarrow> 'l \<Rightarrow> 'l \<times> bool) \<Rightarrow> 'l list \<Rightarrow> 'l list" where
  "iterate f els = iterate_from 0 f els"

text \<open>
  Modelled from the spec: \<open>register(loop)\<close> appends the loop and assigns
  \<open>loop.idx = len(loops) - 1\<close>.
\<close>

definition register :: "'p eventloop \<Rightarrow> 'p eventloop list \<Rightarrow> 'p eventloop list" where
  "register el els = els @ [el\<lparr>idx := int (length els)\<rparr>]"

section \<open>ConnId codec\<close>

text \<open>
  The decode at the head of \<open>AsyncWrite\<close> and \<open>Trigger\<close>: \<open>connId\<close> is an \<open>int64\<close>, so
  \<open>>>\<close> is the arithmetic shift; \<open>>>\<close> and \<open>&\<close> have the same precedence and associate to
  the left; \<open>int(...)\<close> reads the masked value as a signed 64-bit number.
\<close>

definition decode_elidx :: "64 word \<Rightarrow> int" where
  "decode_elidx connId = sint (signed_drop_bit 48 connId AND 0xffff)"

definition decode_id :: "64 word \<Rightarrow> 16 word" where
  "decode_id connId = ucast (signed_drop_bit 32 connId AND 0xffff)"

definition decode_fd :: "64 word \<Rightarrow> int" where
  "decode_fd connId = sint (connId AND 0xffffffff)"

text \<open>
  Modelled from the spec: the function that packs a ConnId is not among the source files.
  The wire format is \<open>(loopIdx<<48) | (id<<32) | uint32(fd)\<close> on 64 bits.
\<close>

definition ConnId :: "int \<Rightarrow> 16 word \<Rightarrow> int \<Rightarrow> 64 word" where
  "ConnId loopIdx gid fdv =
     push_bit 48 (word_of_int loopIdx) OR push_bit 32 (ucast gid)
       OR ucast (word_of_int fdv :: 32 word)"

section \<open>Cross-thread handle: AsyncWrite and Trigger\<close>

text \<open>
  Modelled from the spec: \<open>connections.getConn(fd)\<close> is not among the source files; it looks
  \<open>fd\<close> up in the loop's connections and yields nil when absent.
\<close>

definition getConn :: "(int \<rightharpoonup> conn) \<Rightarrow> int \<Rightarrow> conn option" where
  "getConn conns fdv = conns fdv"

text \<open>
  The closure that \<open>Engine.AsyncWrite\<close> hands to \<open>poller.Trigger\<close>.  It runs later on the
  owning loop, so it takes the loop as it is then.  \<open>c.write\<close> is a method of the connection
  (not among the source files) and is a parameter: it may change the loop it runs on.
\<close>

definition asyncWriteClosure ::
  "(conn \<Rightarrow> bytes \<Rightarrow> 'p eventloop \<Rightarrow> 'p eventloop) \<Rightarrow> int \<Rightarrow> 16 word \<Rightarrow> bytes \<Rightarrow> 'p closure" where
  "asyncWriteClosure write fdv gid data el =
     (case getConn (connections el) fdv of
        None \<Rightarrow> (None, el)
      | Some c \<Rightarrow>
          if id_c c = gid then
            (if \<not> opened c then (None, el) else (None, write c data el))
          else (None, el))"

text \<open>The closure of \<open>Engine.Trigger\<close>; \<open>cb\<close> is the user's callback.\<close>

definition triggerClosure ::
  "(conn \<Rightarrow> 'p eventloop \<Rightarrow> 'p eventloop) \<Rightarrow> int \<Rightarrow> 16 word \<Rightarrow> 'p closure" where
  "triggerClosure cb fdv gid el =
     (case getConn (connections el) fdv of
        None \<Rightarrow> (None, el)
      | Some c \<Rightarrow>
          if id_c c = gid then
            (if opened c then (None, cb c el) else (None, el))
          else (None, el))"

text \<open>
  The closures of \<open>engine.AsyncWrite\<close> and \<open>engine.Trigger\<close> in engine.go, which index the
  \<open>connections\<close> map directly (\<open>c, ok := el.connections[fd]\<close>).
\<close>

definition engine_asyncWriteClosure ::
  "(conn \<Rightarrow> bytes \<Rightarrow> 'p eventloop \<Rightarrow> 'p eventloop) \<Rightarrow> int \<Rightarrow> 16 word \<Rightarrow> bytes \<Rightarrow> 'p closure" where
  "engine_asyncWriteClosure write fdv gid data el =
     (case connections el fdv of
        Some c \<Rightarrow>
          if id_c c = gid then
            (if \<not> opened c then (None, el) else (None, write c data el))
          else (None, el)
      | None \<Rightarrow> (None, el))"

definition engine_triggerClosure ::
  "(conn \<Rightarrow> 'p eventloop \<Rightarrow> 'p eventloop) \<Rightarrow> int \<Rightarrow> 16 word \<Rightarrow> 'p closure" where
  "engine_triggerClosure cb fdv gid el =
     (case connections el fdv of
        Some c \<Rightarrow>
          if gid = id_c c then
            (if opened c then (None, cb c el) else (None, el))
          else (None, el)
      | None \<Rightarrow> (None, el))"

text \<open>
  \<open>Engine.AsyncWrite\<close> and \<open>Engine.Trigger\<close>.  \<open>poller.Trigger\<close> of package netpoll is the
  parameter \<open>pollerTrigger\<close>: given the priority, the closure and the poller it returns an error
  or nil and the poller with the closure queued.  The code discards that error.
\<close>

definition AsyncWrite ::
  "(priority \<Rightarrow> 'p closure \<Rightarrow> 'p \<Rightarrow> error option \<times> 'p) \<Rightarrow>
   (conn \<Rightarrow> bytes \<Rightarrow> 'p eventloop \<Rightarrow> 'p eventloop) \<Rightarrow>
   'p Engine \<Rightarrow> 64 word \<Rightarrow> bytes \<Rightarrow> error option \<times> 'p Engine" where
  "AsyncWrite pollerTrigger write e connId data =
     (case eng e of
        None \<Rightarrow> (Some ErrEmptyEngine, e)
      | Some en \<Rightarrow>
          (let elidx = decode_elidx connId;
               gid = decode_id connId;
               fdv = decode_fd connId;
               els = iterate (\<lambda>i el.
                       if i = elidx then
                         (el\<lparr>poller := snd (pollerTrigger HighPriority
                                (asyncWriteClosure write fdv gid data) (poller el))\<rparr>, False)
                       else (el, True)) (eventLoops en)
           in (None, e\<lparr>eng := Some (en\<lparr>eventLoops := els\<rparr>)\<rparr>)))"

definition Trigger ::
  "(priority \<Rightarrow> 'p closure \<Rightarrow> 'p \<Rightarrow> error option \<times> 'p) \<Rightarrow>
   'p Engine \<Rightarrow> 64 word \<Rightarrow> (conn \<Rightarrow> 'p eventloop \<Rightarrow> 'p eventloop) option \<Rightarrow> 'p Engine" where
  "Trigger pollerTrigger e connId cb =
     (case eng e of
        None \<Rightarrow> e
      | Some en \<Rightarrow>
          (case cb of
             None \<Rightarrow> e
           | Some cbf \<Rightarrow>
               (let elidx = decode_elidx connId;
                    gid = decode_id connId;
                    fdv = decode_fd connId;
                    els = iterate (\<lambda>i el.
                            if i = elidx then
                              (el\<lparr>poller := snd (pollerTrigger HighPriority
                                     (triggerClosure cbf fdv gid) (poller el))\<rparr>, False)
                            else (el, True)) (eventLoops en)
                in e\<lparr>eng := Some (en\<lparr>eventLoops := els\<rparr>)\<rparr>)))"

section \<open>Readiness handlers and the loop entry functions\<close>

text \<open>
  What a readiness handler does with a ready descriptor: the callee it returns the result
  of, with its arguments.  \<open>accept\<close>, \<open>accept0\<close>, \<open>processIO\<close> and \<open>poller.Delete\<close> are
  the callees.
\<close>

datatype dispatch =
    Accept int
  | Accept0 int
  | ProcessIO conn int
  | PollerDelete int

text \<open>The handler that \<open>run\<close> passes to \<open>Polling\<close>.\<close>

definition run_handler :: "'p eventloop \<Rightarrow> int \<Rightarrow> dispatch" where
  "run_handler el fdv =
     (case getConn (connections el) fdv of
        None \<Rightarrow>
          (case map_of (listeners el) fdv of
             Some ln \<Rightarrow> Accept fdv
           | None \<Rightarrow> PollerDelete fdv)
      | Some c \<Rightarrow> ProcessIO c fdv)"

text \<open>The handler that \<open>orbit\<close> passes to \<open>Polling\<close>.\<close>

definition orbit_handler :: "'p eventloop \<Rightarrow> int \<Rightarrow> dispatch" where
  "orbit_handler el fdv =
     (case getConn (connections el) fdv of
        None \<Rightarrow> PollerDelete fdv
      | Some c \<Rightarrow> ProcessIO c fdv)"

text \<open>\<open>rotate\<close> passes \<open>el.accept0\<close> itself.\<close>

definition rotate_handler :: "'p eventloop \<Rightarrow> int \<Rightarrow> dispatch" where
  "rotate_handler el fdv = Accept0 fdv"

text \<open>
  The calls a loop entry function makes, in order.  \<open>Polling\<close> blocks until it returns an
  error or nil; it belongs to package netpoll and is a parameter that receives the handler
  and the loop.  \<open>closeConns\<close> and \<open>engine.shutdown\<close> are recorded as calls.
\<close>

datatype call =
    RuntimeLockOSThread
  | RuntimeUnlockOSThread
  | PollerPolling
  | Debugf
  | Errorf error
  | CloseConns int
  | Shutdown "error option"

text \<open>
  The part shared by the three functions after \<open>Polling\<close> has returned: the sentinel is
  replaced by nil, any other error is logged and kept.
\<close>

definition afterPolling :: "error option \<Rightarrow> error option \<times> call list" where
  "afterPolling err =
     (if errors_Is err ErrEngineShutdown then (None, [Debugf])
      else (case err of Some e \<Rightarrow> (err, [Errorf e]) | None \<Rightarrow> (err, [])))"

definition lockOSThread :: "Options \<Rightarrow> call list" where
  "lockOSThread os = (if LockOSThread os then [RuntimeLockOSThread] else [])"

text \<open>The deferred \<open>runtime.UnlockOSThread()\<close> runs when the function returns.\<close>

definition unlockOSThread :: "Options \<Rightarrow> call list" where
  "unlockOSThread os = (if LockOSThread os then [RuntimeUnlockOSThread] else [])"

definition rotate ::
  "(('p eventloop \<Rightarrow> int \<Rightarrow> dispatch) \<Rightarrow> 'p eventloop \<Rightarrow> error option) \<Rightarrow>
   Options \<Rightarrow> 'p eventloop \<Rightarrow> error option \<times> call list" where
  "rotate Polling os el =
     (case afterPolling (Polling rotate_handler el) of (err, logs) \<Rightarrow>
        (err, lockOSThread os @ [PollerPolling] @ logs @ [Shutdown err] @ unlockOSThread os))"

definition orbit ::
  "(('p eventloop \<Rightarrow> int \<Rightarrow> dispatch) \<Rightarrow> 'p eventloop \<Rightarrow> error option) \<Rightarrow>
   Options \<Rightarrow> 'p eventloop \<Rightarrow> error option \<times> call list" where
  "orbit Polling os el =
     (case afterPolling (Polling orbit_handler el) of (err, logs) \<Rightarrow>
        (err, lockOSThread os @ [PollerPolling] @ logs
                @ [CloseConns (idx el), Shutdown err] @ unlockOSThread os))"

definition run ::
  "(('p eventloop \<Rightarrow> int \<Rightarrow> dispatch) \<Rightarrow> 'p eventloop \<Rightarrow> error option) \<Rightarrow>
   Options \<Rightarrow> 'p eventloop \<Rightarrow> error option \<times> call list" where
  "run Polling os el =
     (case afterPolling (Polling run_handler el) of (err, logs) \<Rightarrow>
        (err, lockOSThread os @ [PollerPolling] @ logs
                @ [CloseConns (idx el), Shutdown err] @ unlockOSThread os))"

section \<open>Engine start\<close>

text \<open>The goroutines an activation spawns; the ticker's receiver is a loop or nil.\<close>

datatype goroutine =
    GoRun int
  | GoSubReactor int
  | GoMainReactor
  | GoTicker "int option"

text \<open>
  \<open>startEventLoops\<close> and \<open>startSubReactors\<close>: for every registered loop, \<open>wg.Add(1)\<close> and
  one goroutine.
\<close>

definition startEventLoops :: "'p engine \<Rightarrow> 'p engine \<times> goroutine list" where
  "startEventLoops en =
     (en\<lparr>wg := wg en + length (eventLoops en)\<rparr>, map (\<lambda>el. GoRun (idx el)) (eventLoops en))"

definition startSubReactors :: "'p engine \<Rightarrow> 'p engine \<times> goroutine list" where
  "startSubReactors en =
     (en\<lparr>wg := wg en + length (eventLoops en)\<rparr>,
      map (\<lambda>el. GoSubReactor (idx el)) (eventLoops en))"

text \<open>
  The inner loop of \<open>activateEventLoops\<close> for \<open>i > 0\<close>: every listener is bound again with
  \<open>initListener\<close> and stored under its new descriptor; the first failure returns.
  \<open>initListener\<close>, \<open>netpoll.OpenPoller\<close> and \<open>poller.AddRead\<close> are parameters; the first
  two also receive the number \<open>i\<close> of the loop being built.
\<close>

fun initListeners ::
  "(nat \<Rightarrow> string \<Rightarrow> string \<Rightarrow> Options \<Rightarrow> error + listener) \<Rightarrow> nat \<Rightarrow> Options \<Rightarrow>
   (int \<times> listener) list \<Rightarrow> (int \<times> listener) list \<Rightarrow> error + (int \<times> listener) list" where
  "initListeners initListener i os [] ls = Inr ls"
| "initListeners initListener i os ((k, ln) # rest) ls =
     (case initListener i (network ln) (address ln) os of
        Inl e \<Rightarrow> Inl e
      | Inr ln' \<Rightarrow> initListeners initListener i os rest (AList.update (ln_fd ln') ln' ls))"

text \<open>\<open>AddRead\<close> of every listener on the new poller; the first failure returns.\<close>

fun addReadAll ::
  "('p \<Rightarrow> int \<Rightarrow> error option \<times> 'p) \<Rightarrow> (int \<times> listener) list \<Rightarrow> 'p \<Rightarrow> error option \<times> 'p" where
  "addReadAll AddRead [] p = (None, p)"
| "addReadAll AddRead ((k, ln) # rest) p =
     (case AddRead p (ln_fd ln) of
        (Some e, p') \<Rightarrow> (Some e, p')
      | (None, p') \<Rightarrow> addReadAll AddRead rest p')"

text \<open>
  One pass of the \<open>for i\<close> loop of \<open>activateEventLoops\<close> over the engine, the local
  \<open>listeners\<close> and the local \<open>striker\<close>.  A failure returns the error with the engine as it
  is then.
\<close>

definition eventLoopsBody ::
  "(nat \<Rightarrow> string \<Rightarrow> string \<Rightarrow> Options \<Rightarrow> error + listener) \<Rightarrow>
   (nat \<Rightarrow> error + 'p) \<Rightarrow> ('p \<Rightarrow> int \<Rightarrow> error option \<times> 'p) \<Rightarrow> nat \<Rightarrow>
   'p engine \<times> (int \<times> listener) list \<times> 'p eventloop option \<Rightarrow>
   (error \<times> 'p engine) + ('p engine \<times> (int \<times> listener) list \<times> 'p eventloop option)" where
  "eventLoopsBody initListener OpenPoller AddRead i st =
     (case st of (en, lns, striker) \<Rightarrow>
        (case (if i > 0 then initListeners initListener i (opts en) lns [] else Inr lns) of
           Inl e \<Rightarrow> Inl (e, en)
         | Inr lns' \<Rightarrow>
             (case OpenPoller i of
                Inl e \<Rightarrow> Inl (e, en)
              | Inr p \<Rightarrow>
                  (case addReadAll AddRead lns' p of
                     (Some e, p') \<Rightarrow> Inl (e, en)
                   | (None, p') \<Rightarrow>
                       (let els = register
                                    \<lparr>idx = 0, poller = p', connections = Map.empty,
                                     listeners = lns'\<rparr> (eventLoops en);
                            el = last els
                        in Inr (en\<lparr>eventLoops := els\<rparr>, lns',
                                if idx el = 0 \<and> Ticker (opts en) then Some el else striker))))))"

fun eventLoopsLoop ::
  "(nat \<Rightarrow> string \<Rightarrow> string \<Rightarrow> Options \<Rightarrow> error + listener) \<Rightarrow>
   (nat \<Rightarrow> error + 'p) \<Rightarrow> ('p \<Rightarrow> int \<Rightarrow> error option \<times> 'p) \<Rightarrow> nat \<Rightarrow> nat \<Rightarrow>
   'p engine \<times> (int \<times> listener) list \<times> 'p eventloop option \<Rightarrow>
   (error \<times> 'p engine) + ('p engine \<times> (int \<times> listener) list \<times> 'p eventloop option)" where
  "eventLoopsLoop initListener OpenPoller AddRead 0 i st = Inr st"
| "eventLoopsLoop initListener OpenPoller AddRead (Suc n) i st =
     (case eventLoopsBody initListener OpenPoller AddRead i st of
        Inl e \<Rightarrow> Inl e
      | Inr st' \<Rightarrow> eventLoopsLoop initListener OpenPoller AddRead n (Suc i) st')"

text \<open>
  \<open>engine.activateEventLoops\<close>: the engine's listeners move to the local variable, the
  loop runs \<open>numEventLoop\<close> times from \<open>i = 0\<close> (not at all when \<open>numEventLoop \<le> 0\<close>), then
  the event loops are started and \<open>go striker.ticker(eng.tickerCtx)\<close> is executed.
\<close>

definition activateEventLoops ::
  "(nat \<Rightarrow> string \<Rightarrow> string \<Rightarrow> Options \<Rightarrow> error + listener) \<Rightarrow>
   (nat \<Rightarrow> error + 'p) \<Rightarrow> ('p \<Rightarrow> int \<Rightarrow> error option \<times> 'p) \<Rightarrow>
   'p engine \<Rightarrow> int \<Rightarrow> error option \<times> 'p engine \<times> goroutine list" where
  "activateEventLoops initListener OpenPoller AddRead en numEventLoop =
     (case eventLoopsLoop initListener OpenPoller AddRead (nat numEventLoop) 0
             (en\<lparr>listeners_eng := []\<rparr>, listeners_eng en, None) of
        Inl (e, en') \<Rightarrow> (Some e, en', [])
      | Inr (en', lns, striker) \<Rightarrow>
          (case startEventLoops en' of (en'', gs) \<Rightarrow>
             (None, en'', gs @ [GoTicker (map_option idx striker)])))"

text \<open>The first loop of \<open>activateReactors\<close>: one poller and one registered loop per pass.\<close>

fun reactorsLoop ::
  "(nat \<Rightarrow> error + 'p) \<Rightarrow> nat \<Rightarrow> nat \<Rightarrow> 'p engine \<Rightarrow> (error \<times> 'p engine) + 'p engine" where
  "reactorsLoop OpenPoller 0 i en = Inr en"
| "reactorsLoop OpenPoller (Suc n) i en =
     (case OpenPoller i of
        Inl e \<Rightarrow> Inl (e, en)
      | Inr p \<Rightarrow>
          reactorsLoop OpenPoller n (Suc i)
            (en\<lparr>eventLoops :=
                  register \<lparr>idx = 0, poller = p, connections = Map.empty,
                            listeners = listeners_eng en\<rparr> (eventLoops en)\<rparr>))"

text \<open>
  \<open>engine.activateReactors\<close>: the sub reactors, then the main loop with \<open>idx = -1\<close> that
  owns the listeners, then the ticker on the main loop under \<open>if eng.opts.Ticker\<close>.
\<close>

definition activateReactors ::
  "(nat \<Rightarrow> error + 'p) \<Rightarrow> ('p \<Rightarrow> int \<Rightarrow> error option \<times> 'p) \<Rightarrow>
   'p engine \<Rightarrow> int \<Rightarrow> error option \<times> 'p engine \<times> goroutine list" where
  "activateReactors OpenPoller AddRead en numEventLoop =
     (case reactorsLoop OpenPoller (nat numEventLoop) 0 en of
        Inl (e, en') \<Rightarrow> (Some e, en', [])
      | Inr en1 \<Rightarrow>
          (case startSubReactors en1 of (en2, subs) \<Rightarrow>
             (case OpenPoller (nat numEventLoop) of
                Inl e \<Rightarrow> (Some e, en2, subs)
              | Inr p \<Rightarrow>
                  (case addReadAll AddRead (listeners_eng en2) p of
                     (Some e, p') \<Rightarrow> (Some e, en2, subs)
                   | (None, p') \<Rightarrow>
                       (let el = \<lparr>idx = - 1, poller = p', connections = Map.empty,
                                  listeners = listeners_eng en2\<rparr>;
                            en3 = en2\<lparr>mainLoop := Some el, wg := wg en2 + 1\<rparr>
                        in (None, en3,
                            subs @ [GoMainReactor]
                              @ (if Ticker (opts en3)
                                 then [GoTicker (map_option idx (mainLoop en3))] else [])))))))"

text \<open>
  \<open>engine.start\<close>: \<open>network\<close> is taken from the first entry that the \<open>range\<close> over
  \<open>eng.listeners\<close> yields (the loop breaks at once) and stays empty for an empty map.
\<close>

definition start_network :: "(int \<times> listener) list \<Rightarrow> string" where
  "start_network lns = (case lns of [] \<Rightarrow> [] | (k, ln) # rest \<Rightarrow> network ln)"

definition start ::
  "(nat \<Rightarrow> string \<Rightarrow> string \<Rightarrow> Options \<Rightarrow> error + listener) \<Rightarrow>
   (nat \<Rightarrow> error + 'p) \<Rightarrow> ('p \<Rightarrow> int \<Rightarrow> error option \<times> 'p) \<Rightarrow>
   'p engine \<Rightarrow> int \<Rightarrow> error option \<times> 'p engine \<times> goroutine list" where
  "start initListener OpenPoller AddRead en numEventLoop =
     (if ReusePort (opts en) \<or> start_network (listeners_eng en) = ''udp''
      then activateEventLoops initListener OpenPoller AddRead en numEventLoop
      else activateReactors OpenPoller AddRead en numEventLoop)"

text \<open>
  Modelled from the spec: \<open>hasUdp\<close>, which \<open>server.start\<close> calls on the listener slice, is not
  among the source files: it holds when any listener is UDP.
\<close>

fun hasUdp :: "listener list \<Rightarrow> bool" where
  "hasUdp [] = False"
| "hasUdp (ln # lns) = (if network ln = ''udp'' then True else hasUdp lns)"

text \<open>The test of \<open>server.start\<close>: true selects \<open>activateEventLoops\<close>.\<close>

definition server_start_reuseport :: "Options \<Rightarrow> listener list \<Rightarrow> bool" where
  "server_start_reuseport os lns = (ReusePort os \<or> hasUdp lns)"

section \<open>Engine stop\<close>

text \<open>
  The steps of \<open>engine.stop\<close> in program order.  \<open>UrgentTrigger\<close> and \<open>Close\<close> of a poller
  are parameters giving the error or nil of the call; an error is logged.
\<close>

datatype step =
    WaitForShutdown
  | OnShutdown
  | UrgentTriggerShutdown int
  | LoggerErrorf error
  | CloseAllListeners
  | WgWait
  | PollerClose int
  | CancelTicker
  | AtomicStoreInShutdown int

definition logged :: "error option \<Rightarrow> step list" where
  "logged err = (case err of Some e \<Rightarrow> [LoggerErrorf e] | None \<Rightarrow> [])"

definition closeEventLoops :: "'p engine \<Rightarrow> step list" where
  "closeEventLoops en = map (\<lambda>el. PollerClose (idx el)) (eventLoops en)"

definition stop :: "('p \<Rightarrow> error option) \<Rightarrow> ('p \<Rightarrow> error option) \<Rightarrow> 'p engine \<Rightarrow> step list" where
  "stop UrgentTrigger Close en =
     [WaitForShutdown, OnShutdown]
     @ concat (map (\<lambda>el. UrgentTriggerShutdown (idx el) # logged (UrgentTrigger (poller el)))
                 (eventLoops en))
     @ (case mainLoop en of
          Some ml \<Rightarrow> [CloseAllListeners, UrgentTriggerShutdown (idx ml)]
                       @ logged (UrgentTrigger (poller ml))
        | None \<Rightarrow> [])
     @ [WgWait]
     @ closeEventLoops en
     @ (case mainLoop en of
          Some ml \<Rightarrow> PollerClose (idx ml) # logged (Close (poller ml))
        | None \<Rightarrow> [])
     @ (if Ticker (opts en) then [CancelTicker] else [])
     @ [AtomicStoreInShutdown 1]"

text \<open>
  What a step does to the engine's own fields: the store writes \<open>inShutdown\<close>; \<open>wg.Wait()\<close>
  returns when the counter is zero, every polling thread having called \<open>wg.Done()\<close>.  The
  other steps act on pollers, listeners, the ticker and the user's handler.
\<close>

fun exec_step :: "'p engine \<Rightarrow> step \<Rightarrow> 'p engine" where
  "exec_step en (AtomicStoreInShutdown v) = en\<lparr>inShutdown := v\<rparr>"
| "exec_step en WgWait = en\<lparr>wg := 0\<rparr>"
| "exec_step en s = en"

definition isInShutdown :: "'p engine \<Rightarrow> bool" where
  "isInShutdown en = (inShutdown en = 1)"

section \<open>The main reactor's accept\<close>

text \<open>
  The system calls and collaborators of \<open>server.accept\<close>, as functions giving their
  results: \<open>unix.Accept\<close>, \<open>unix.SetNonblock\<close>, \<open>socket.SetKeepAlive\<close>, the load balancer's
  \<open>next\<close> (the index of the chosen loop), \<open>newTCPConn\<close> and the chosen loop's
  \<open>poller.UrgentTrigger(el.register, c)\<close>.
\<close>

record accept_env =
  unix_Accept :: "int \<Rightarrow> error + (int \<times> string)"
  unix_SetNonblock :: "int \<Rightarrow> error option"
  socket_SetKeepAlive :: "int \<Rightarrow> int \<Rightarrow> error option"
  lb_next :: "string \<Rightarrow> int"
  newTCPConn :: "int \<Rightarrow> int \<Rightarrow> conn"
  UrgentTrigger_register :: "int \<Rightarrow> conn \<Rightarrow> error option"

datatype effect =
    Logger_Errorf error
  | Logging_Error "error option"
  | Unix_Close int
  | ReleaseTCP conn

definition Second :: int where
  "Second = 1000000000"

text \<open>
  \<open>server.accept\<close>: the listeners are searched for \<open>fd\<close>; the body of the first match
  returns in every branch.
\<close>

fun server_accept :: "accept_env \<Rightarrow> Options \<Rightarrow> int \<Rightarrow> listener list \<Rightarrow> error option \<times> effect list" where
  "server_accept env os fdv [] = (None, [])"
| "server_accept env os fdv (ln # lns) =
     (if fdv = ln_fd ln then
        (case unix_Accept env fdv of
           Inl err \<Rightarrow>
             if err = EAGAIN then (None, [])
             else (Some ErrAcceptSocket, [Logger_Errorf err])
         | Inr (nfd, sa) \<Rightarrow>
             (case NewSyscallError ''fcntl nonblock'' (unix_SetNonblock env nfd) of
                Some err \<Rightarrow> (Some err, [])
              | None \<Rightarrow>
                  (let remoteAddr = sa;
                       ka = (if TCPKeepAlive os > 0 \<and> network ln = ''tcp''
                             then [Logging_Error
                                     (socket_SetKeepAlive env nfd (TCPKeepAlive os div Second))]
                             else []);
                       eli = lb_next env remoteAddr;
                       c = newTCPConn env nfd eli
                   in (case UrgentTrigger_register env eli c of
                         Some err \<Rightarrow> (None, ka @ [Unix_Close nfd, ReleaseTCP c])
                       | None \<Rightarrow> (None, ka)))))
      else server_accept env os fdv lns)"

section \<open>Concrete engines, loops and collaborators\<close>

text \<open>
  Small concrete values on which the functions above are evaluated: a poller is a counter
  of the calls made on it.
\<close>

definition conn7 :: conn where
  "conn7 = \<lparr>fd = 7, id_c = 2, opened = True, outboundBuffer = []\<rparr>"

definition tcp3 :: listener where
  "tcp3 = \<lparr>ln_fd = 3, network = ''tcp'', address = ''0.0.0.0:9000''\<rparr>"

definition tcp5 :: listener where
  "tcp5 = \<lparr>ln_fd = 5, network = ''tcp'', address = ''0.0.0.0:9000''\<rparr>"

definition udp6 :: listener where
  "udp6 = \<lparr>ln_fd = 6, network = ''udp'', address = ''0.0.0.0:9001''\<rparr>"

definition loop0 :: "nat eventloop" where
  "loop0 = \<lparr>idx = 0, poller = 0, connections = [7 \<mapsto> conn7], listeners = [(3, tcp3)]\<rparr>"

definition loop1 :: "nat eventloop" where
  "loop1 = \<lparr>idx = 1, poller = 0, connections = Map.empty, listeners = [(3, tcp3)]\<rparr>"

definition appendWrite :: "conn \<Rightarrow> bytes \<Rightarrow> nat eventloop \<Rightarrow> nat eventloop" where
  "appendWrite c data el =
     el\<lparr>connections :=
          (connections el)(fd c \<mapsto> c\<lparr>outboundBuffer := outboundBuffer c @ data\<rparr>)\<rparr>"

definition markClosed :: "conn \<Rightarrow> nat eventloop \<Rightarrow> nat eventloop" where
  "markClosed c el = el\<lparr>connections := (connections el)(fd c \<mapsto> c\<lparr>opened := False\<rparr>)\<rparr>"

definition failingTrigger :: "priority \<Rightarrow> nat closure \<Rightarrow> nat \<Rightarrow> error option \<times> nat" where
  "failingTrigger prio f p = (Some (Errno 9), Suc p)"

definition twoLoopEngine :: "nat engine" where
  "twoLoopEngine =
     \<lparr>listeners_eng = [], eventLoops = [loop0, loop1],
      opts = \<lparr>ReusePort = True, Ticker = True, LockOSThread = True, TCPKeepAlive = 0\<rparr>,
      mainLoop = None, wg = 2, inShutdown = 0\<rparr>"

definition reactorEngine :: "nat engine" where
  "reactorEngine = twoLoopEngine\<lparr>mainLoop := Some (loop1\<lparr>idx := - 1\<rparr>), wg := 3\<rparr>"

definition mixedEngine :: "nat engine" where
  "mixedEngine =
     \<lparr>listeners_eng = [(5, tcp5), (6, udp6)], eventLoops = [],
      opts = \<lparr>ReusePort = False, Ticker = False, LockOSThread = False, TCPKeepAlive = 0\<rparr>,
      mainLoop = None, wg = 0, inShutdown = 0\<rparr>"

definition reuseportEngine :: "nat engine" where
  "reuseportEngine =
     \<lparr>listeners_eng = [(5, tcp5)], eventLoops = [],
      opts = \<lparr>ReusePort = True, Ticker = False, LockOSThread = False, TCPKeepAlive = 0\<rparr>,
      mainLoop = None, wg = 0, inShutdown = 0\<rparr>"

definition initListenerOK :: "nat \<Rightarrow> string \<Rightarrow> string \<Rightarrow> Options \<Rightarrow> error + listener" where
  "initListenerOK i n a os = Inr \<lparr>ln_fd = 100 + int i, network = n, address = a\<rparr>"

definition OpenPollerOK :: "nat \<Rightarrow> error + nat" where
  "OpenPollerOK i = Inr 0"

definition AddReadOK :: "nat \<Rightarrow> int \<Rightarrow> error option \<times> nat" where
  "AddReadOK p fdv = (None, Suc p)"

definition pollShutdown ::
  "(nat eventloop \<Rightarrow> int \<Rightarrow> dispatch) \<Rightarrow> nat eventloop \<Rightarrow> error option" where
  "pollShutdown h el = Some (SyscallError ''epoll_wait'' ErrEngineShutdown)"

definition pollFails ::
  "(nat eventloop \<Rightarrow> int \<Rightarrow> dispatch) \<Rightarrow> nat eventloop \<Rightarrow> error option" where
  "pollFails h el = Some (Errno 9)"

definition triggerOK :: "nat \<Rightarrow> error option" where
  "triggerOK p = None"

definition closeFails :: "nat \<Rightarrow> error option" where
  "closeFails p = Some (Errno 9)"

definition acceptEnv :: accept_env where
  "acceptEnv =
     \<lparr>unix_Accept = (\<lambda>fdv. Inr (9, ''10.0.0.1:5000'')),
      unix_SetNonblock = (\<lambda>nfd. None),
      socket_SetKeepAlive = (\<lambda>nfd secs. Some (Errno 22)),
      lb_next = (\<lambda>addr. 1),
      newTCPConn = (\<lambda>nfd i. \<lparr>fd = nfd, id_c = 0, opened = False, outboundBuffer = []\<rparr>),
      UrgentTrigger_register = (\<lambda>i c. Some (Errno 9))\<rparr>"

definition keepAliveOpts :: Options where
  "keepAliveOpts =
     \<lparr>ReusePort = False, Ticker = False, LockOSThread = False, TCPKeepAlive = 30 * Second\<rparr>"

section \<open>Theorems\<close>

subsection \<open>Helper facts\<close>

lemma mask16_eq: "(0xffff :: 64 word) = mask 16"
  by (simp add: mask_eq_exp_minus_1)

lemma mask32_eq: "(0xffffffff :: 64 word) = mask 32"
  by (simp add: mask_eq_exp_minus_1)

lemma decode_id_ConnId: "decode_id (ConnId loopIdx gid fdv) = gid"
  unfolding decode_id_def ConnId_def mask16_eq
  by (rule bit_word_eqI) (auto simp add: bit_simps dest: bit_imp_le_length)

lemma elidx_word:
  "signed_drop_bit 48 (ConnId loopIdx gid fdv) AND 0xffff
     = (word_of_int (take_bit 16 loopIdx) :: 64 word)"
  unfolding ConnId_def mask16_eq
  by (rule bit_word_eqI) (auto simp add: bit_simps dest: bit_imp_le_length)

lemma fd_word:
  "ConnId loopIdx gid fdv AND 0xffffffff = (word_of_int (take_bit 32 fdv) :: 64 word)"
  unfolding ConnId_def mask32_eq
  by (rule bit_word_eqI) (auto simp add: bit_simps dest: bit_imp_le_length)

lemma sint_small: "0 \<le> x \<Longrightarrow> x < 2 ^ 32 \<Longrightarrow> sint (word_of_int x :: 64 word) = x"
  by (simp add: signed_of_int signed_take_bit_int_eq_self)

lemma decode_elidx_ConnId:
  assumes "0 \<le> loopIdx" and "loopIdx < 2 ^ 16"
  shows "decode_elidx (ConnId loopIdx gid fdv) = loopIdx"
proof -
  have "take_bit 16 loopIdx = loopIdx"
    using assms by (simp add: take_bit_int_eq_self)
  moreover have "loopIdx < 2 ^ 32"
    using assms by simp
  ultimately show ?thesis
    unfolding decode_elidx_def elidx_word using assms(1) by (simp add: sint_small)
qed

lemma decode_fd_ConnId:
  assumes "0 \<le> fdv" and "fdv < 2 ^ 32"
  shows "decode_fd (ConnId loopIdx gid fdv) = fdv"
proof -
  have "take_bit 32 fdv = fdv"
    using assms by (simp add: take_bit_int_eq_self)
  then show ?thesis
    unfolding decode_fd_def fd_word using assms by (simp add: sint_small)
qed

text \<open>Steps other than the store leave \<open>inShutdown\<close> alone; after \<open>wg.Wait()\<close> the counter is zero.\<close>

lemma foldl_exec_no_store:
  "(\<forall>v. AtomicStoreInShutdown v \<notin> set zs) \<Longrightarrow>
     inShutdown (foldl exec_step en zs) = inShutdown en"
proof (induction zs arbitrary: en)
  case Nil
  then show ?case by simp
next
  case (Cons z zs)
  then show ?case by (cases z) auto
qed

lemma foldl_exec_wg:
  "WgWait \<in> set zs \<Longrightarrow> wg (foldl exec_step en zs) = 0"
proof (induction zs arbitrary: en rule: rev_induct)
  case Nil
  then show ?case by simp
next
  case (snoc z zs)
  then show ?case by (cases z) auto
qed

text \<open>The shape of \<open>stop\<close>: everything, then the store.\<close>

lemma stop_shape:
  "\<exists>pre. stop UrgentTrigger Close en = pre @ [AtomicStoreInShutdown 1]
     \<and> (\<forall>v. AtomicStoreInShutdown v \<notin> set pre)
     \<and> WgWait \<in> set pre
     \<and> (\<forall>el \<in> set (eventLoops en). PollerClose (idx el) \<in> set pre)
     \<and> (\<forall>ml. mainLoop en = Some ml \<longrightarrow> PollerClose (idx ml) \<in> set pre)
     \<and> (Ticker (opts en) \<longrightarrow> CancelTicker \<in> set pre)"
  unfolding stop_def closeEventLoops_def
  by (rule exI [where x = "butlast (stop UrgentTrigger Close en)"])
     (auto simp add: stop_def closeEventLoops_def logged_def butlast_append split: option.splits)

text \<open>
  What \<open>engine.start\<close> tests: the network of the first listener the \<open>range\<close> yields, no
  other listener.
\<close>

lemma start_reads_first_listener:
  "start initListener OpenPoller AddRead en n =
     (if ReusePort (opts en)
         \<or> (case listeners_eng en of [] \<Rightarrow> False | (k, ln) # rest \<Rightarrow> network ln = ''udp'')
      then activateEventLoops initListener OpenPoller AddRead en n
      else activateReactors OpenPoller AddRead en n)"
  by (simp add: start_def start_network_def split: list.splits prod.splits)

text \<open>
  With the ticker disabled \<open>striker\<close> is never assigned, and an \<open>activateEventLoops\<close> that
  returns nil has executed \<open>go striker.ticker(...)\<close> all the same.
\<close>

lemma eventLoopsBody_striker:
  assumes "eventLoopsBody initListener OpenPoller AddRead i (en, lns, s) = Inr (en', lns', s')"
    and "\<not> Ticker (opts en)"
  shows "s' = s \<and> opts en' = opts en"
  using assms
  by (auto simp add: eventLoopsBody_def Let_def split: sum.splits prod.splits option.splits
        if_splits)

lemma eventLoopsLoop_striker:
  assumes "eventLoopsLoop initListener OpenPoller AddRead n i (en, lns, s) = Inr (en', lns', s')"
    and "\<not> Ticker (opts en)"
  shows "s' = s"
  using assms
proof (induction n arbitrary: i en lns s)
  case 0
  then show ?case by simp
next
  case (Suc n)
  from Suc.prems(1) obtain en1 lns1 s1 where
    body: "eventLoopsBody initListener OpenPoller AddRead i (en, lns, s) = Inr (en1, lns1, s1)"
    and rest: "eventLoopsLoop initListener OpenPoller AddRead n (Suc i) (en1, lns1, s1)
                 = Inr (en', lns', s')"
    by (auto split: sum.splits)
  from eventLoopsBody_striker [OF body Suc.prems(2)] have "s1 = s" and "opts en1 = opts en"
    by simp_all
  with Suc.IH [OF rest] Suc.prems(2) show ?case
    by simp
qed

lemma activateEventLoops_spawns_ticker:
  assumes "fst (activateEventLoops initListener OpenPoller AddRead en n) = None"
  shows "\<exists>gs s. snd (snd (activateEventLoops initListener OpenPoller AddRead en n))
                  = gs @ [GoTicker s]
               \<and> (\<not> Ticker (opts en) \<longrightarrow> s = None)"
proof (cases "eventLoopsLoop initListener OpenPoller AddRead (nat n) 0
                (en\<lparr>listeners_eng := []\<rparr>, listeners_eng en, None)")
  case (Inl a)
  with assms show ?thesis
    by (simp add: activateEventLoops_def split: prod.splits)
next
  case (Inr st)
  obtain en' lns' s' where st: "st = (en', lns', s')"
    by (cases st) auto
  have "\<not> Ticker (opts en) \<Longrightarrow> s' = None"
    using eventLoopsLoop_striker [OF Inr [unfolded st]] by simp
  with Inr st show ?thesis
    by (auto simp add: activateEventLoops_def startEventLoops_def)
qed

subsection \<open>Stale connection identifiers\<close>

text \<open>
  C1.  For every \<open>connId\<close> and every state of the owning loop, the closure that
  \<open>AsyncWrite\<close> (and \<open>Trigger\<close>) queues writes (or calls the callback) only when the loop's
  \<open>connections\<close> hold a connection under the decoded descriptor whose generation id is the
  decoded 16-bit id and whose \<open>opened\<close> flag is set.  In every other case (descriptor
  absent, id mismatch, not opened) it returns nil and the loop, with its connections, is
  unchanged: a ConnId recorded before the close does nothing, also when the descriptor
  now belongs to a new connection with another id.  This holds for the closures of the
  handle's methods and for those of \<open>engine.AsyncWrite\<close> and \<open>engine.Trigger\<close>.
\<close>

theorem closure_acts_only_on_live_conn:
  "(connections el (decode_fd connId) = Some c \<and> id_c c = decode_id connId \<and> opened c \<longrightarrow>
      asyncWriteClosure write (decode_fd connId) (decode_id connId) data el
        = (None, write c data el)
    \<and> triggerClosure cb (decode_fd connId) (decode_id connId) el = (None, cb c el)
    \<and> engine_asyncWriteClosure write (decode_fd connId) (decode_id connId) data el
        = (None, write c data el)
    \<and> engine_triggerClosure cb (decode_fd connId) (decode_id connId) el = (None, cb c el))
   \<and> ((\<nexists>c'. connections el (decode_fd connId) = Some c' \<and> id_c c' = decode_id connId
              \<and> opened c') \<longrightarrow>
      asyncWriteClosure write (decode_fd connId) (decode_id connId) data el = (None, el)
    \<and> triggerClosure cb (decode_fd connId) (decode_id connId) el = (None, el)
    \<and> engine_asyncWriteClosure write (decode_fd connId) (decode_id connId) data el = (None, el)
    \<and> engine_triggerClosure cb (decode_fd connId) (decode_id connId) el = (None, el))"
  by (auto simp add: asyncWriteClosure_def triggerClosure_def engine_asyncWriteClosure_def
        engine_triggerClosure_def getConn_def split: option.splits)

text \<open>
  On \<open>loop0\<close> descriptor 7 belongs to a connection of generation 2.  The ConnId
  \<open>0x0000000200000007\<close> reaches it; the ConnId \<open>0x0000000100000007\<close> of the connection that
  held descriptor 7 before does nothing.
\<close>

theorem closure_acts_only_on_live_conn_witness:
  "map_option outboundBuffer
     (connections (snd (asyncWriteClosure appendWrite (decode_fd 8589934599)
                          (decode_id 8589934599) [1, 2] loop0)) 7) = Some [1, 2]
   \<and> map_option opened
     (connections (snd (triggerClosure markClosed (decode_fd 8589934599)
                          (decode_id 8589934599) loop0)) 7) = Some False
   \<and> asyncWriteClosure appendWrite (decode_fd 4294967303) (decode_id 4294967303) [1, 2] loop0
       = (None, loop0)
   \<and> triggerClosure markClosed (decode_fd 4294967303) (decode_id 4294967303) loop0
       = (None, loop0)
   \<and> engine_asyncWriteClosure appendWrite (decode_fd 4294967303) (decode_id 4294967303)
        [1, 2] loop0 = (None, loop0)
   \<and> engine_triggerClosure markClosed (decode_fd 4294967303) (decode_id 4294967303) loop0
       = (None, loop0)"
proof -
  have live: "connections loop0 (decode_fd 8589934599) = Some conn7
              \<and> id_c conn7 = decode_id 8589934599 \<and> opened conn7"
    by (simp add: loop0_def conn7_def decode_fd_def decode_id_def)
  have stale: "\<nexists>c'. connections loop0 (decode_fd 4294967303) = Some c'
                   \<and> id_c c' = decode_id 4294967303 \<and> opened c'"
    by (auto simp add: loop0_def conn7_def decode_fd_def decode_id_def)
  show ?thesis
    using live stale
      closure_acts_only_on_live_conn
        [of loop0 8589934599 conn7 appendWrite "[1, 2]" markClosed]
      closure_acts_only_on_live_conn
        [of loop0 4294967303 conn7 appendWrite "[1, 2]" markClosed]
    by (simp add: appendWrite_def markClosed_def conn7_def)
qed

subsection \<open>ConnId codec\<close>

text \<open>
  C2.  Round trip of the ConnId codec: for a loop index in \<open>[0, 2^16)\<close>, any 16-bit
  generation id and a non-negative descriptor below \<open>2^32\<close>, the decode used by
  \<open>AsyncWrite\<close> and \<open>Trigger\<close> applied to \<open>(loopIdx<<48) | (id<<32) | uint32(fd)\<close> gives back
  the loop index, the id and the descriptor.
\<close>

theorem connId_roundtrip:
  assumes "0 \<le> loopIdx" and "loopIdx < 2 ^ 16" and "0 \<le> fdv" and "fdv < 2 ^ 32"
  shows "decode_elidx (ConnId loopIdx gid fdv) = loopIdx
       \<and> decode_id (ConnId loopIdx gid fdv) = gid
       \<and> decode_fd (ConnId loopIdx gid fdv) = fdv"
  using assms by (simp add: decode_elidx_ConnId decode_id_ConnId decode_fd_ConnId)

theorem connId_roundtrip_witness:
  "(0::int) \<le> 65535 \<and> (65535::int) < 2 ^ 16 \<and> (0::int) \<le> 4294967295 \<and> (4294967295::int) < 2 ^ 32
   \<and> decode_elidx (ConnId 65535 40000 4294967295) = 65535
   \<and> decode_id (ConnId 65535 40000 4294967295) = 40000
   \<and> decode_fd (ConnId 65535 40000 4294967295) = 4294967295"
  using connId_roundtrip [of 65535 4294967295 40000] by simp

subsection \<open>Topology selection\<close>

text \<open>
  C3.  The claim is that \<open>engine.start\<close> runs reuseport mode exactly when \<open>ReusePort\<close> is
  set or at least one listener is UDP.  On an engine without \<open>ReusePort\<close> whose listener
  map holds a TCP and a UDP listener, with the \<open>range\<close> yielding the TCP listener first,
  \<open>start\<close> runs \<open>activateReactors\<close>: it spawns the sub reactor and the main reactor, and the
  main loop has \<open>idx = -1\<close>, although a listener is UDP.  When the \<open>range\<close> yields the
  UDP listener first, \<open>start\<close> runs \<open>activateEventLoops\<close> on the same map.  The test of
  \<open>server.start\<close>, \<open>hasUdp\<close> over all listeners, selects reuseport mode on these
  listeners.
\<close>

theorem start_mixed_listeners:
  "list_ex (\<lambda>(k, ln). network ln = ''udp'') (listeners_eng mixedEngine)
   \<and> fst (start initListenerOK OpenPollerOK AddReadOK mixedEngine 1) = None
   \<and> snd (snd (start initListenerOK OpenPollerOK AddReadOK mixedEngine 1))
       = [GoSubReactor 0, GoMainReactor]
   \<and> map_option idx
       (mainLoop (fst (snd (start initListenerOK OpenPollerOK AddReadOK mixedEngine 1))))
       = Some (- 1)
   \<and> snd (snd (start initListenerOK OpenPollerOK AddReadOK
                 (mixedEngine\<lparr>listeners_eng := [(6, udp6), (5, tcp5)]\<rparr>) 1))
       = [GoRun 0, GoTicker None]
   \<and> server_start_reuseport (opts mixedEngine) (map snd (listeners_eng mixedEngine))"
  by (simp add: start_def start_network_def mixedEngine_def tcp5_def udp6_def
        activateReactors_def startSubReactors_def activateEventLoops_def eventLoopsBody_def
        startEventLoops_def register_def OpenPollerOK_def AddReadOK_def
        server_start_reuseport_def Let_def)

subsection \<open>The ticker in reuseport mode\<close>

text \<open>
  C4.  The claim is that \<open>activateEventLoops\<close> spawns the ticker goroutine only when the
  \<open>Ticker\<close> option is enabled and never calls a method on a nil \<open>striker\<close>.  On an engine
  with \<open>ReusePort\<close> set and \<open>Ticker\<close> disabled, \<open>activateEventLoops\<close> with one loop returns
  nil and has spawned \<open>run\<close> of loop 0 and \<open>striker.ticker\<close> with \<open>striker\<close> nil.
  \<open>activateReactors\<close> on the same engine spawns no ticker.  With \<open>Ticker\<close> enabled and two
  loops, the ticker is spawned on the loop with \<open>idx = 0\<close>.
\<close>

theorem activateEventLoops_ticker_disabled:
  "\<not> Ticker (opts reuseportEngine)
   \<and> fst (activateEventLoops initListenerOK OpenPollerOK AddReadOK reuseportEngine 1) = None
   \<and> snd (snd (activateEventLoops initListenerOK OpenPollerOK AddReadOK reuseportEngine 1))
       = [GoRun 0, GoTicker None]
   \<and> snd (snd (activateReactors OpenPollerOK AddReadOK reuseportEngine 1))
       = [GoSubReactor 0, GoMainReactor]
   \<and> snd (snd (activateEventLoops initListenerOK OpenPollerOK AddReadOK
                 (reuseportEngine\<lparr>opts := (opts reuseportEngine)\<lparr>Ticker := True\<rparr>\<rparr>) 2))
       = [GoRun 0, GoRun 1, GoTicker (Some 0)]"
  by (simp add: reuseportEngine_def tcp5_def numeral_2_eq_2
        activateEventLoops_def eventLoopsBody_def startEventLoops_def initListenerOK_def
        activateReactors_def startSubReactors_def register_def OpenPollerOK_def AddReadOK_def
        Let_def)

subsection \<open>Errors of the handle\<close>

text \<open>
  C5.  \<open>Engine.AsyncWrite\<close> returns \<open>ErrEmptyEngine\<close> exactly when the handle's engine
  pointer is nil; for every other input (a loop index that matches no loop, a missing
  connection, a stale generation id, a failing \<open>poller.Trigger\<close>) it returns nil.
  \<open>Engine.Trigger\<close> on a nil-engine handle or with a nil callback returns with the handle
  and the engine as they were; so does \<open>AsyncWrite\<close> on a nil-engine handle.
\<close>

theorem asyncWrite_error_iff_nil_engine:
  "(fst (AsyncWrite pollerTrigger write e connId data) = Some ErrEmptyEngine \<longleftrightarrow> eng e = None)
   \<and> (eng e \<noteq> None \<longrightarrow> fst (AsyncWrite pollerTrigger write e connId data) = None)
   \<and> (eng e = None \<longrightarrow> snd (AsyncWrite pollerTrigger write e connId data) = e)
   \<and> (eng e = None \<or> cb = None \<longrightarrow> Trigger pollerTrigger e connId cb = e)"
  by (auto simp add: AsyncWrite_def Trigger_def Let_def split: option.splits)

theorem asyncWrite_error_iff_nil_engine_witness:
  "fst (AsyncWrite failingTrigger appendWrite \<lparr>eng = None\<rparr> 8589934599 [1]) = Some ErrEmptyEngine
   \<and> snd (AsyncWrite failingTrigger appendWrite \<lparr>eng = None\<rparr> 8589934599 [1]) = \<lparr>eng = None\<rparr>
   \<and> fst (AsyncWrite failingTrigger appendWrite \<lparr>eng = Some twoLoopEngine\<rparr> 4294967303 [1]) = None
   \<and> fst (AsyncWrite failingTrigger appendWrite \<lparr>eng = Some twoLoopEngine\<rparr>
            (ConnId 9 2 7) [1]) = None
   \<and> Trigger failingTrigger \<lparr>eng = None\<rparr> 8589934599 (Some markClosed) = \<lparr>eng = None\<rparr>
   \<and> Trigger failingTrigger \<lparr>eng = Some twoLoopEngine\<rparr> 4294967303 None
       = \<lparr>eng = Some twoLoopEngine\<rparr>"
  using asyncWrite_error_iff_nil_engine
          [of failingTrigger appendWrite "\<lparr>eng = None\<rparr>" 8589934599 "[1]" "Some markClosed"]
        asyncWrite_error_iff_nil_engine
          [of failingTrigger appendWrite "\<lparr>eng = Some twoLoopEngine\<rparr>" 4294967303 "[1]" None]
        asyncWrite_error_iff_nil_engine
          [of failingTrigger appendWrite "\<lparr>eng = Some twoLoopEngine\<rparr>" "ConnId 9 2 7" "[1]" None]
  by simp

subsection \<open>Exit of the loop entry functions\<close>

text \<open>
  C6.  For \<open>run\<close>, \<open>orbit\<close> and \<open>rotate\<close>: when \<open>Polling\<close> returns an error that
  \<open>errors.Is\<close> matches with \<open>ErrEngineShutdown\<close> the function returns nil; any other result
  of \<open>Polling\<close> is returned unchanged; and in both cases the last call before the deferred
  unlock is \<open>engine.shutdown\<close> with the error the function returns.
\<close>

theorem loop_exit_error:
  "(errors_Is (Polling run_handler el) ErrEngineShutdown \<longrightarrow> fst (run Polling os el) = None)
   \<and> (\<not> errors_Is (Polling run_handler el) ErrEngineShutdown \<longrightarrow>
        fst (run Polling os el) = Polling run_handler el)
   \<and> (\<exists>pre. snd (run Polling os el)
               = pre @ [Shutdown (fst (run Polling os el))] @ unlockOSThread os)
   \<and> (errors_Is (Polling orbit_handler el) ErrEngineShutdown \<longrightarrow>
        fst (orbit Polling os el) = None)
   \<and> (\<not> errors_Is (Polling orbit_handler el) ErrEngineShutdown \<longrightarrow>
        fst (orbit Polling os el) = Polling orbit_handler el)
   \<and> (\<exists>pre. snd (orbit Polling os el)
               = pre @ [Shutdown (fst (orbit Polling os el))] @ unlockOSThread os)
   \<and> (errors_Is (Polling rotate_handler el) ErrEngineShutdown \<longrightarrow>
        fst (rotate Polling os el) = None)
   \<and> (\<not> errors_Is (Polling rotate_handler el) ErrEngineShutdown \<longrightarrow>
        fst (rotate Polling os el) = Polling rotate_handler el)
   \<and> (\<exists>pre. snd (rotate Polling os el)
               = pre @ [Shutdown (fst (rotate Polling os el))] @ unlockOSThread os)"
  by (auto simp add: run_def orbit_def rotate_def afterPolling_def split: option.splits)

theorem loop_exit_error_witness:
  "errors_Is (pollShutdown run_handler loop0) ErrEngineShutdown
   \<and> fst (run pollShutdown (opts twoLoopEngine) loop0) = None
   \<and> fst (orbit pollShutdown (opts twoLoopEngine) loop0) = None
   \<and> fst (rotate pollShutdown (opts twoLoopEngine) loop0) = None
   \<and> \<not> errors_Is (pollFails run_handler loop0) ErrEngineShutdown
   \<and> fst (run pollFails (opts twoLoopEngine) loop0) = Some (Errno 9)
   \<and> fst (orbit pollFails (opts twoLoopEngine) loop0) = Some (Errno 9)
   \<and> fst (rotate pollFails (opts twoLoopEngine) loop0) = Some (Errno 9)
   \<and> snd (run pollFails (opts twoLoopEngine) loop0)
       = [RuntimeLockOSThread, PollerPolling, Errorf (Errno 9), CloseConns 0,
          Shutdown (Some (Errno 9)), RuntimeUnlockOSThread]"
  using loop_exit_error [of pollShutdown loop0 "opts twoLoopEngine"]
        loop_exit_error [of pollFails loop0 "opts twoLoopEngine"]
  by (simp add: pollShutdown_def pollFails_def errors_Is_def run_def afterPolling_def
        lockOSThread_def unlockOSThread_def twoLoopEngine_def loop0_def)

subsection \<open>Order of the steps of stop\<close>

text \<open>
  C7.  In \<open>engine.stop\<close> the atomic store of \<open>inShutdown = 1\<close> is the final step, after the
  WaitGroup join, after the pollers of all loops (and of the main loop) are closed and
  after the ticker is cancelled.  Hence, starting from an engine whose flag is not set, at
  any point of \<open>stop\<close> at which \<open>isInShutdown\<close> holds, the steps executed so far are all of
  \<open>stop\<close>, they contain \<open>wg.Wait()\<close> and the WaitGroup counter is zero.
\<close>

theorem inShutdown_only_after_join:
  assumes "\<not> isInShutdown en"
    and "stop UrgentTrigger Close en = xs @ ys"
    and "isInShutdown (foldl exec_step en xs)"
  shows "ys = [] \<and> last xs = AtomicStoreInShutdown 1
       \<and> WgWait \<in> set xs \<and> wg (foldl exec_step en xs) = 0
       \<and> (\<forall>el \<in> set (eventLoops en). PollerClose (idx el) \<in> set xs)
       \<and> (\<forall>ml. mainLoop en = Some ml \<longrightarrow> PollerClose (idx ml) \<in> set xs)
       \<and> (Ticker (opts en) \<longrightarrow> CancelTicker \<in> set xs)"
proof -
  obtain pre where pre: "stop UrgentTrigger Close en = pre @ [AtomicStoreInShutdown 1]"
    and nostore: "\<forall>v. AtomicStoreInShutdown v \<notin> set pre"
    and rest: "WgWait \<in> set pre"
      "\<forall>el \<in> set (eventLoops en). PollerClose (idx el) \<in> set pre"
      "\<forall>ml. mainLoop en = Some ml \<longrightarrow> PollerClose (idx ml) \<in> set pre"
      "Ticker (opts en) \<longrightarrow> CancelTicker \<in> set pre"
    using stop_shape [of UrgentTrigger Close en] by blast
  have ys: "ys = []"
  proof (rule ccontr)
    assume "ys \<noteq> []"
    then obtain ys' y where "ys = ys' @ [y]"
      by (metis rev_exhaust)
    with assms(2) pre have "pre = xs @ ys'"
      by simp
    with nostore have "\<forall>v. AtomicStoreInShutdown v \<notin> set xs"
      by simp
    then have "inShutdown (foldl exec_step en xs) = inShutdown en"
      by (rule foldl_exec_no_store)
    with assms(1,3) show False
      by (simp add: isInShutdown_def)
  qed
  with assms(2) pre have xs: "xs = pre @ [AtomicStoreInShutdown 1]"
    by simp
  have "wg (foldl exec_step en xs) = 0"
    using rest(1) xs by (intro foldl_exec_wg) simp
  with ys xs rest show ?thesis
    by simp
qed

theorem inShutdown_only_after_join_witness:
  "\<not> isInShutdown reactorEngine
   \<and> isInShutdown (foldl exec_step reactorEngine (stop triggerOK closeFails reactorEngine))
   \<and> \<not> isInShutdown (foldl exec_step reactorEngine
                        (butlast (stop triggerOK closeFails reactorEngine)))
   \<and> last (stop triggerOK closeFails reactorEngine) = AtomicStoreInShutdown 1
   \<and> WgWait \<in> set (stop triggerOK closeFails reactorEngine)
   \<and> wg (foldl exec_step reactorEngine (stop triggerOK closeFails reactorEngine)) = 0
   \<and> PollerClose 0 \<in> set (stop triggerOK closeFails reactorEngine)
   \<and> PollerClose 1 \<in> set (stop triggerOK closeFails reactorEngine)
   \<and> PollerClose (- 1) \<in> set (stop triggerOK closeFails reactorEngine)
   \<and> CancelTicker \<in> set (stop triggerOK closeFails reactorEngine)"
proof -
  have a: "\<not> isInShutdown reactorEngine"
    by (simp add: isInShutdown_def reactorEngine_def twoLoopEngine_def)
  have b: "stop triggerOK closeFails reactorEngine = stop triggerOK closeFails reactorEngine @ []"
    by simp
  have c: "isInShutdown (foldl exec_step reactorEngine (stop triggerOK closeFails reactorEngine))"
    by (simp add: isInShutdown_def stop_def closeEventLoops_def logged_def reactorEngine_def
          twoLoopEngine_def triggerOK_def closeFails_def loop0_def loop1_def)
  have d: "\<not> isInShutdown (foldl exec_step reactorEngine
                        (butlast (stop triggerOK closeFails reactorEngine)))"
    by (simp add: isInShutdown_def stop_def closeEventLoops_def logged_def reactorEngine_def
          twoLoopEngine_def triggerOK_def closeFails_def loop0_def loop1_def butlast_append)
  show ?thesis
    using a c d inShutdown_only_after_join [OF a b c]
    by (simp add: reactorEngine_def twoLoopEngine_def loop0_def loop1_def)
qed

subsection \<open>Readiness dispatch\<close>

text \<open>
  C8.  A descriptor is never a listener and a connection of one loop at the same time.
  Then in \<open>run\<close>'s handler every ready descriptor that is a registered listener is handled
  by \<open>accept\<close>, every ready descriptor owned by a connection goes to that connection's
  \<open>processIO\<close>, and every ready descriptor with neither is deleted from the poller.
  \<open>orbit\<close>'s handler never accepts: a ready descriptor goes to its connection's
  \<open>processIO\<close> or is deleted from the poller.
\<close>

theorem readiness_dispatch:
  assumes "dom (connections el) \<inter> dom (map_of (listeners el)) = {}"
  shows "(fdv \<in> dom (map_of (listeners el)) \<longrightarrow> run_handler el fdv = Accept fdv)
       \<and> (\<forall>c. connections el fdv = Some c \<longrightarrow> run_handler el fdv = ProcessIO c fdv)
       \<and> (fdv \<notin> dom (connections el) \<and> fdv \<notin> dom (map_of (listeners el)) \<longrightarrow>
            run_handler el fdv = PollerDelete fdv)
       \<and> (\<forall>fdv'. orbit_handler el fdv \<noteq> Accept fdv')
       \<and> (\<forall>c. connections el fdv = Some c \<longrightarrow> orbit_handler el fdv = ProcessIO c fdv)
       \<and> (fdv \<notin> dom (connections el) \<longrightarrow> orbit_handler el fdv = PollerDelete fdv)"
  using assms
  by (auto simp add: run_handler_def orbit_handler_def getConn_def split: option.splits)

theorem readiness_dispatch_witness:
  "dom (connections loop0) \<inter> dom (map_of (listeners loop0)) = {}
   \<and> run_handler loop0 3 = Accept 3
   \<and> run_handler loop0 7 = ProcessIO conn7 7
   \<and> run_handler loop0 9 = PollerDelete 9
   \<and> orbit_handler loop0 3 = PollerDelete 3
   \<and> orbit_handler loop0 7 = ProcessIO conn7 7"
proof -
  have d: "dom (connections loop0) \<inter> dom (map_of (listeners loop0)) = {}"
    by (simp add: loop0_def)
  show ?thesis
    using d readiness_dispatch [OF d, of 3] readiness_dispatch [OF d, of 7]
      readiness_dispatch [OF d, of 9]
    by (simp add: loop0_def)
qed

subsection \<open>Registration failure in the main reactor's accept\<close>

text \<open>
  C9.  In \<open>server.accept\<close>, when the ready descriptor is a listener's, the accept and the
  switch to non-blocking succeed, and \<open>UrgentTrigger\<close> of the registration on the chosen
  loop returns an error, then the accepted descriptor is closed, the new connection is
  released, nothing else is done but logging the keep-alive result, and \<open>accept\<close> returns
  nil.
\<close>

theorem accept_registration_failure:
  assumes "find (\<lambda>ln. fdv = ln_fd ln) lns = Some ln"
    and "unix_Accept env fdv = Inr (nfd, sa)"
    and "unix_SetNonblock env nfd = None"
    and "UrgentTrigger_register env (lb_next env sa) (newTCPConn env nfd (lb_next env sa))
           = Some err"
  shows "fst (server_accept env os fdv lns) = None
       \<and> (\<exists>pre. snd (server_accept env os fdv lns)
                   = pre @ [Unix_Close nfd, ReleaseTCP (newTCPConn env nfd (lb_next env sa))]
                 \<and> (\<forall>x \<in> set pre. \<exists>e. x = Logging_Error e))"
  using assms
proof (induction lns)
  case Nil
  then show ?case by simp
next
  case (Cons l lns)
  show ?case
  proof (cases "fdv = ln_fd l")
    case True
    with Cons.prems show ?thesis
      by (simp add: NewSyscallError_def Let_def)
  next
    case False
    with Cons show ?thesis by simp
  qed
qed

theorem accept_registration_failure_witness:
  "server_accept acceptEnv keepAliveOpts 3 [tcp5, tcp3]
     = (None, [Logging_Error (Some (Errno 22)), Unix_Close 9,
               ReleaseTCP \<lparr>fd = 9, id_c = 0, opened = False, outboundBuffer = []\<rparr>])"
proof -
  have a: "find (\<lambda>ln. 3 = ln_fd ln) [tcp5, tcp3] = Some tcp3"
    by (simp add: tcp5_def tcp3_def)
  have b: "unix_Accept acceptEnv 3 = Inr (9, ''10.0.0.1:5000'')"
    by (simp add: acceptEnv_def)
  have c: "unix_SetNonblock acceptEnv 9 = None"
    by (simp add: acceptEnv_def)
  have d: "UrgentTrigger_register acceptEnv (lb_next acceptEnv ''10.0.0.1:5000'')
             (newTCPConn acceptEnv 9 (lb_next acceptEnv ''10.0.0.1:5000'')) = Some (Errno 9)"
    by (simp add: acceptEnv_def)
  show ?thesis
    using accept_registration_failure [OF a b c d, of keepAliveOpts]
    by (simp add: acceptEnv_def keepAliveOpts_def tcp5_def tcp3_def NewSyscallError_def
          Second_def)
qed

subsection \<open>Connection cleanup on loop exit\<close>

text \<open>
  C10.  Whatever \<open>Polling\<close> returns, \<open>run\<close> and \<open>orbit\<close> call \<open>closeConns\<close> on their own
  loop immediately before \<open>engine.shutdown\<close>, which they call once; \<open>rotate\<close> never calls
  \<open>closeConns\<close>.
\<close>

theorem closeConns_before_shutdown:
  "(\<exists>pre. snd (run Polling os el)
            = pre @ [CloseConns (idx el), Shutdown (fst (run Polling os el))] @ unlockOSThread os
          \<and> (\<forall>e. Shutdown e \<notin> set pre))
   \<and> (\<exists>pre. snd (orbit Polling os el)
            = pre @ [CloseConns (idx el), Shutdown (fst (orbit Polling os el))]
                @ unlockOSThread os
          \<and> (\<forall>e. Shutdown e \<notin> set pre))
   \<and> (\<forall>i. CloseConns i \<notin> set (snd (rotate Polling os el)))"
  by (auto simp add: run_def orbit_def rotate_def afterPolling_def lockOSThread_def
        unlockOSThread_def split: option.splits)

theorem closeConns_before_shutdown_witness:
  "snd (run pollShutdown (opts twoLoopEngine) loop1)
     = [RuntimeLockOSThread, PollerPolling, Debugf, CloseConns 1, Shutdown None,
        RuntimeUnlockOSThread]
   \<and> snd (orbit pollFails (opts twoLoopEngine) loop1)
     = [RuntimeLockOSThread, PollerPolling, Errorf (Errno 9), CloseConns 1,
        Shutdown (Some (Errno 9)), RuntimeUnlockOSThread]
   \<and> snd (rotate pollShutdown (opts twoLoopEngine) loop1)
     = [RuntimeLockOSThread, PollerPolling, Debugf, Shutdown None, RuntimeUnlockOSThread]"
  using closeConns_before_shutdown [of pollShutdown "opts twoLoopEngine" loop1]
        closeConns_before_shutdown [of pollFails "opts twoLoopEngine" loop1]
  by (simp add: pollShutdown_def pollFails_def errors_Is_def run_def orbit_def rotate_def
        afterPolling_def lockOSThread_def unlockOSThread_def twoLoopEngine_def loop1_def)

end
